theory Spec2Isabelle
  imports Main
begin

section \<open>JavaScript values\<close>

text \<open>
  The SDK is JavaScript: the values it receives from callers and from the server are
  untyped. A value is modelled as a tree. Numbers are restricted to the integers
  (token counts, status codes and offsets are integers; fractions and NaN are outside
  the model). An object is the list of its own properties in creation order, without
  duplicate keys.
\<close>

datatype jsval =
    Undefined
  | Null
  | Bool bool
  | Num int
  | Str string
  | Arr "jsval list"
  | Obj "(string \<times> jsval) list"

text \<open>
  \<open>v.p\<close> for a value \<open>v\<close> that is neither \<open>null\<close> nor \<open>undefined\<close>, and a name
  \<open>p\<close> that no prototype defines (every name the SDK reads is such a name: status,
  error, code, task_id, tool, offset, ...).
\<close>

fun field :: "jsval \<Rightarrow> string \<Rightarrow> jsval" where
  "field (Obj ps) p = (case map_of ps p of Some v \<Rightarrow> v | None \<Rightarrow> Undefined)"
| "field v p = Undefined"

text \<open>Truthiness, as \<open>!x\<close>, \<open>x && y\<close> and \<open>x || y\<close> test it.\<close>

fun truthy :: "jsval \<Rightarrow> bool" where
  "truthy Undefined = False"
| "truthy Null = False"
| "truthy (Bool b) = b"
| "truthy (Num n) = (n \<noteq> 0)"
| "truthy (Str s) = (s \<noteq> [])"
| "truthy (Arr xs) = True"
| "truthy (Obj ps) = True"

definition js_or :: "jsval \<Rightarrow> jsval \<Rightarrow> jsval" where
  "js_or a b = (if truthy a then a else b)"

text \<open>A parameter with a default value takes the default exactly when it is \<open>undefined\<close>.\<close>

definition param_default :: "jsval \<Rightarrow> jsval \<Rightarrow> jsval" where
  "param_default v d = (if v = Undefined then d else v)"

text \<open>
  The JSON value that \<open>JSON.stringify(data)\<close> writes: a property whose value is
  \<open>undefined\<close> is left out, an \<open>undefined\<close> array element is written as \<open>null\<close>.
\<close>

fun json_of :: "jsval \<Rightarrow> jsval"
  and json_elems :: "jsval list \<Rightarrow> jsval list"
  and json_props :: "(string \<times> jsval) list \<Rightarrow> (string \<times> jsval) list" where
  "json_of (Arr xs) = Arr (json_elems xs)"
| "json_of (Obj ps) = Obj (json_props ps)"
| "json_of v = v"
| "json_elems [] = []"
| "json_elems (x # xs) = (if x = Undefined then Null else json_of x) # json_elems xs"
| "json_props [] = []"
| "json_props (kv # ps) =
     (if snd kv = Undefined then json_props ps else (fst kv, json_of (snd kv)) # json_props ps)"

section \<open>The JavaScript runtime\<close>

text \<open>
  What the engine decides, and the repository does not, is a parameter of the model:
  the text \<open>JSON.stringify\<close> produces, the text of a number, the conversions
  \<open>ToString\<close> of arrays and objects and \<open>ToNumber\<close> of strings, arrays and objects
  (\<open>Inl m\<close>: the conversion throws a TypeError with message \<open>m\<close>; \<open>Inr None\<close>: NaN),
  and the messages of the engine's own TypeErrors.
\<close>

record runtime =
  JSON_stringify :: "jsval \<Rightarrow> string"
  number_text :: "int \<Rightarrow> string"
  ToString :: "jsval \<Rightarrow> string + string"
  ToNumber :: "jsval \<Rightarrow> string + int option"
  cannot_read :: "jsval \<Rightarrow> string \<Rightarrow> string"
  cannot_destructure :: "jsval \<Rightarrow> string \<Rightarrow> string"
  not_iterable :: "jsval \<Rightarrow> string"
  not_a_function :: "string \<Rightarrow> string"

section \<open>Error Type (src/common.js)\<close>

text \<open>
  What an operation can throw: the SDK's \<open>ApiException\<close> (message, status, code,
  detail), a plain \<open>Error\<close>, a \<open>TypeError\<close> of the engine, or whatever \<open>fetch\<close> and
  \<open>response.json()\<close> reject with (an error object with a message).
\<close>

datatype js_error =
    ApiException string jsval jsval jsval
  | Error string
  | TypeError string
  | Rejection string

fun is_ApiException :: "js_error \<Rightarrow> bool" where
  "is_ApiException (ApiException m s c d) = True"
| "is_ApiException e = False"

fun error_message :: "js_error \<Rightarrow> string" where
  "error_message (ApiException m s c d) = m"
| "error_message (Error m) = m"
| "error_message (TypeError m) = m"
| "error_message (Rejection m) = m"

definition js_ToString :: "runtime \<Rightarrow> jsval \<Rightarrow> js_error + string" where
  "js_ToString rt v =
     (case v of
        Str s \<Rightarrow> Inr s
      | Undefined \<Rightarrow> Inr ''undefined''
      | Null \<Rightarrow> Inr ''null''
      | Bool b \<Rightarrow> Inr (if b then ''true'' else ''false'')
      | Num n \<Rightarrow> Inr (number_text rt n)
      | _ \<Rightarrow> (case ToString rt v of Inl m \<Rightarrow> Inl (TypeError m) | Inr s \<Rightarrow> Inr s))"

definition js_ToNumber :: "runtime \<Rightarrow> jsval \<Rightarrow> js_error + int option" where
  "js_ToNumber rt v =
     (case v of
        Num n \<Rightarrow> Inr (Some n)
      | Undefined \<Rightarrow> Inr None
      | Null \<Rightarrow> Inr (Some 0)
      | Bool b \<Rightarrow> Inr (Some (if b then 1 else 0))
      | _ \<Rightarrow> (case ToNumber rt v of Inl m \<Rightarrow> Inl (TypeError m) | Inr n \<Rightarrow> Inr n))"

text \<open>\<open>v >= n\<close> for a numeric literal \<open>n\<close>: false when \<open>v\<close> converts to NaN.\<close>

definition js_ge :: "runtime \<Rightarrow> jsval \<Rightarrow> int \<Rightarrow> js_error + bool" where
  "js_ge rt v n =
     (case js_ToNumber rt v of
        Inl e \<Rightarrow> Inl e
      | Inr None \<Rightarrow> Inr False
      | Inr (Some x) \<Rightarrow> Inr (n \<le> x))"

text \<open>\<open>v.p\<close> for any value: reading a property of \<open>null\<close> or \<open>undefined\<close> throws.\<close>

definition member :: "runtime \<Rightarrow> jsval \<Rightarrow> string \<Rightarrow> js_error + jsval" where
  "member rt v p =
     (if v = Null \<or> v = Undefined then Inl (TypeError (cannot_read rt v p))
      else Inr (field v p))"

text \<open>
  \<open>new ApiException(message, status, code, detail)\<close>: the constructor of \<open>Error\<close>
  converts a message that is not \<open>undefined\<close> to a string.
\<close>

definition new_ApiException ::
  "runtime \<Rightarrow> jsval \<Rightarrow> jsval \<Rightarrow> jsval \<Rightarrow> jsval \<Rightarrow> js_error + js_error" where
  "new_ApiException rt m s c d =
     (if m = Undefined then Inr (ApiException [] s c d)
      else (case js_ToString rt m of
              Inl e \<Rightarrow> Inl e
            | Inr msg \<Rightarrow> Inr (ApiException msg s c d)))"

section \<open>Request Executor (\<open>_request\<close> of the three clients)\<close>

text \<open>
  A request as it leaves the client. \<open>body\<close> is the JSON value whose text
  \<open>JSON.stringify(data)\<close> is the POST body.
\<close>

record http_request =
  url :: string
  http_method :: string
  headers :: "(string \<times> string) list"
  body :: jsval

text \<open>
  \<open>await fetch(...)\<close> followed by \<open>await response.json()\<close> either rejects with an
  error, or yields the parsed body. The network answers a request knowing the
  requests sent before it. The state of the world is the list of requests sent so
  far, oldest first.
\<close>

datatype fetched = Rejected string | Parsed jsval

type_synonym network = "http_request list \<Rightarrow> http_request \<Rightarrow> fetched"

type_synonym outcome = "(js_error + jsval) \<times> http_request list"

text \<open>The body of the \<open>try\<close> block, after the response has arrived.\<close>

definition check_response :: "runtime \<Rightarrow> fetched \<Rightarrow> js_error + jsval" where
  "check_response rt f =
     (case f of
        Rejected m \<Rightarrow> Inl (Rejection m)
      | Parsed result \<Rightarrow>
          (case member rt result ''status'' of
             Inl e \<Rightarrow> Inl e
           | Inr st \<Rightarrow>
               if \<not> truthy st then Inr result
               else (case js_ge rt st 400 of
                       Inl e \<Rightarrow> Inl e
                     | Inr False \<Rightarrow> Inr result
                     | Inr True \<Rightarrow>
                         (case new_ApiException rt
                                 (js_or (field result ''error'') (Str ''API Error''))
                                 (field result ''status'')
                                 (field result ''code'')
                                 (Str (JSON_stringify rt result)) of
                            Inl e \<Rightarrow> Inl e
                          | Inr ex \<Rightarrow> Inl ex))))"

text \<open>The \<open>catch\<close> block.\<close>

definition catch_error :: "js_error \<Rightarrow> js_error" where
  "catch_error e =
     (if is_ApiException e then e
      else ApiException (''Request failed: '' @ error_message e) (Num 500)
             (Str ''REQUEST_FAILED'') (Str (error_message e)))"

text \<open>
  Lines 64-96 of src/client.js, 61-93 of src/store/client.js and 57-89 of
  src/demo/client.js are the same text; the three \<open>_request\<close> methods differ in the
  URL only.
\<close>

definition post_json :: "runtime \<Rightarrow> network \<Rightarrow> string \<Rightarrow> jsval \<Rightarrow> http_request list \<Rightarrow> outcome" where
  "post_json rt net u data sent =
     (let rq = \<lparr>url = u, http_method = ''POST'',
                headers = [(''Content-Type'', ''application/json'')],
                body = json_of data\<rparr>
      in ((case check_response rt (net sent rq) of
             Inl e \<Rightarrow> Inl (catch_error e)
           | Inr result \<Rightarrow> Inr result),
          sent @ [rq]))"

text \<open>An exception thrown before any request is made.\<close>

definition throw :: "js_error \<Rightarrow> http_request list \<Rightarrow> outcome" where
  "throw e sent = (Inl e, sent)"

text \<open>Sequencing of computations that may throw.\<close>

definition and_then :: "js_error + 'a \<Rightarrow> ('a \<Rightarrow> js_error + 'b) \<Rightarrow> js_error + 'b" where
  "and_then r f = (case r of Inl e \<Rightarrow> Inl e | Inr v \<Rightarrow> f v)"

section \<open>Core Client (src/client.js)\<close>

record ERC3 =
  apiKey :: jsval
  baseUrl :: jsval


text \<open>\<open>_request(endpoint, data)\<close>; the URL is built before the \<open>try\<close> block.\<close>

definition core_request ::
  "runtime \<Rightarrow> network \<Rightarrow> ERC3 \<Rightarrow> string \<Rightarrow> jsval \<Rightarrow> http_request list \<Rightarrow> outcome" where
  "core_request rt net this endpoint data sent =
     (case js_ToString rt (baseUrl this) of
        Inl e \<Rightarrow> throw e sent
      | Inr b \<Rightarrow> post_json rt net (b @ endpoint) data sent)"








text \<open>\<open>typeof taskOrId === 'string' ? taskOrId : taskOrId.task_id\<close>\<close>

definition task_id_of :: "runtime \<Rightarrow> jsval \<Rightarrow> js_error + jsval" where
  "task_id_of rt taskOrId =
     (case taskOrId of Str s \<Rightarrow> Inr taskOrId | _ \<Rightarrow> member rt taskOrId ''task_id'')"

definition startTask ::
  "runtime \<Rightarrow> network \<Rightarrow> ERC3 \<Rightarrow> jsval \<Rightarrow> http_request list \<Rightarrow> outcome" where
  "startTask rt net this taskOrId sent =
     (case task_id_of rt taskOrId of
        Inl e \<Rightarrow> throw e sent
      | Inr taskId \<Rightarrow> core_request rt net this ''/tasks/start'' (Obj [(''task_id'', taskId)]) sent)"

definition completeTask ::
  "runtime \<Rightarrow> network \<Rightarrow> ERC3 \<Rightarrow> jsval \<Rightarrow> http_request list \<Rightarrow> outcome" where
  "completeTask rt net this taskOrId sent =
     (case task_id_of rt taskOrId of
        Inl e \<Rightarrow> throw e sent
      | Inr taskId \<Rightarrow> core_request rt net this ''/tasks/complete'' (Obj [(''task_id'', taskId)]) sent)"

text \<open>\<open>viewTask(taskId, since = null)\<close>\<close>

definition viewTask ::
  "runtime \<Rightarrow> network \<Rightarrow> ERC3 \<Rightarrow> jsval \<Rightarrow> jsval \<Rightarrow> http_request list \<Rightarrow> outcome" where
  "viewTask rt net this taskId since_arg =
     (let since = param_default since_arg Null;
          data = [(''task_id'', taskId)];
          data = (if since \<noteq> Null then data @ [(''since'', since)] else data)
      in core_request rt net this ''/tasks/view'' (Obj data))"

text \<open>
  \<open>logLLM({ taskId, model, usage, durationSec })\<close>: the body that is sent, or the
  TypeError of destructuring a missing argument or of reading a missing \<open>usage\<close>.
\<close>

definition logLLM_data :: "runtime \<Rightarrow> jsval \<Rightarrow> js_error + jsval" where
  "logLLM_data rt arg =
     (if arg = Null \<or> arg = Undefined
      then Inl (TypeError (cannot_destructure rt arg ''taskId''))
      else
        let usage = field arg ''usage'' in
        and_then (member rt usage ''prompt_tokens'') (\<lambda>prompt_tokens.
          Inr (Obj [(''task_id'', field arg ''taskId''),
                    (''model'', field arg ''model''),
                    (''usage'',
                       Obj [(''prompt_tokens'',
                               js_or (js_or prompt_tokens (field usage ''input_tokens'')) (Num 0)),
                            (''completion_tokens'',
                               js_or (js_or (field usage ''completion_tokens'')
                                        (field usage ''output_tokens'')) (Num 0)),
                            (''total_tokens'', js_or (field usage ''total_tokens'') (Num 0))]),
                    (''duration_sec'', field arg ''durationSec'')])))"

definition logLLM ::
  "runtime \<Rightarrow> network \<Rightarrow> ERC3 \<Rightarrow> jsval \<Rightarrow> http_request list \<Rightarrow> outcome" where
  "logLLM rt net this arg sent =
     (case logLLM_data rt arg of
        Inl e \<Rightarrow> throw e sent
      | Inr data \<Rightarrow> core_request rt net this ''/tasks/log'' data sent)"

text \<open>A count of the \<open>usage\<close> object in the body that \<open>logLLM\<close> sends.\<close>

definition sent_usage :: "jsval \<Rightarrow> string \<Rightarrow> jsval" where
  "sent_usage data p = field (field data ''usage'') p"

section \<open>Store Client (src/store/client.js)\<close>

record StoreClient =
  store_baseUrl :: jsval
  store_taskId :: jsval

definition store_request ::
  "runtime \<Rightarrow> network \<Rightarrow> StoreClient \<Rightarrow> string \<Rightarrow> jsval \<Rightarrow> http_request list \<Rightarrow> outcome" where
  "store_request rt net this endpoint data sent =
     (case and_then (js_ToString rt (store_baseUrl this)) (\<lambda>b.
             and_then (js_ToString rt (store_taskId this)) (\<lambda>t.
               Inr (b @ ''/store/'' @ t @ endpoint))) of
        Inl e \<Rightarrow> throw e sent
      | Inr u \<Rightarrow> post_json rt net u data sent)"

text \<open>\<open>listProducts({ offset = 0, limit = 20 } = {})\<close>\<close>

definition listProducts ::
  "runtime \<Rightarrow> network \<Rightarrow> StoreClient \<Rightarrow> jsval \<Rightarrow> http_request list \<Rightarrow> outcome" where
  "listProducts rt net this arg sent =
     (let options = param_default arg (Obj []) in
      if options = Null
      then throw (TypeError (cannot_destructure rt options ''offset'')) sent
      else store_request rt net this ''/products/list''
             (Obj [(''tool'', Str ''/products/list''),
                   (''offset'', param_default (field options ''offset'') (Num 0)),
                   (''limit'', param_default (field options ''limit'') (Num 20))])
             sent)"

definition viewBasket ::
  "runtime \<Rightarrow> network \<Rightarrow> StoreClient \<Rightarrow> http_request list \<Rightarrow> outcome" where
  "viewBasket rt net this =
     store_request rt net this ''/basket/view'' (Obj [(''tool'', Str ''/basket/view'')])"

text \<open>\<open>addToBasket(sku, quantity = 1)\<close>\<close>

definition addToBasket ::
  "runtime \<Rightarrow> network \<Rightarrow> StoreClient \<Rightarrow> jsval \<Rightarrow> jsval \<Rightarrow> http_request list \<Rightarrow> outcome" where
  "addToBasket rt net this sku quantity =
     store_request rt net this ''/basket/add''
       (Obj [(''tool'', Str ''/basket/add''),
             (''sku'', sku),
             (''quantity'', param_default quantity (Num 1))])"

text \<open>\<open>removeFromBasket(sku, quantity = 1)\<close>\<close>

definition removeFromBasket ::
  "runtime \<Rightarrow> network \<Rightarrow> StoreClient \<Rightarrow> jsval \<Rightarrow> jsval \<Rightarrow> http_request list \<Rightarrow> outcome" where
  "removeFromBasket rt net this sku quantity =
     store_request rt net this ''/basket/remove''
       (Obj [(''tool'', Str ''/basket/remove''),
             (''sku'', sku),
             (''quantity'', param_default quantity (Num 1))])"

definition checkout ::
  "runtime \<Rightarrow> network \<Rightarrow> StoreClient \<Rightarrow> http_request list \<Rightarrow> outcome" where
  "checkout rt net this =
     store_request rt net this ''/basket/checkout'' (Obj [(''tool'', Str ''/basket/checkout'')])"

definition applyCoupon ::
  "runtime \<Rightarrow> network \<Rightarrow> StoreClient \<Rightarrow> jsval \<Rightarrow> http_request list \<Rightarrow> outcome" where
  "applyCoupon rt net this coupon =
     store_request rt net this ''/coupon/apply''
       (Obj [(''tool'', Str ''/coupon/apply''), (''coupon'', coupon)])"

definition removeCoupon ::
  "runtime \<Rightarrow> network \<Rightarrow> StoreClient \<Rightarrow> http_request list \<Rightarrow> outcome" where
  "removeCoupon rt net this =
     store_request rt net this ''/coupon/remove'' (Obj [(''tool'', Str ''/coupon/remove'')])"

text \<open>
  The \<open>default\<close> branch of both dispatchers:
  \<open>throw new Error(`Unknown tool: ${tool}`)\<close>.
\<close>

definition unknown_tool :: "runtime \<Rightarrow> jsval \<Rightarrow> http_request list \<Rightarrow> outcome" where
  "unknown_tool rt tool sent =
     (case js_ToString rt tool of
        Inl e \<Rightarrow> throw e sent
      | Inr s \<Rightarrow> throw (Error (''Unknown tool: '' @ s)) sent)"

text \<open>\<open>dispatch(request)\<close>; \<open>switch\<close> compares with \<open>===\<close>.\<close>

definition store_dispatch ::
  "runtime \<Rightarrow> network \<Rightarrow> StoreClient \<Rightarrow> jsval \<Rightarrow> http_request list \<Rightarrow> outcome" where
  "store_dispatch rt net this request sent =
     (case member rt request ''tool'' of
        Inl e \<Rightarrow> throw e sent
      | Inr tool \<Rightarrow>
          if tool = Str ''/products/list'' then
            listProducts rt net this
              (Obj [(''offset'', field request ''offset''), (''limit'', field request ''limit'')])
              sent
          else if tool = Str ''/basket/view'' then viewBasket rt net this sent
          else if tool = Str ''/basket/add'' then
            addToBasket rt net this (field request ''sku'') (field request ''quantity'') sent
          else if tool = Str ''/basket/remove'' then
            removeFromBasket rt net this (field request ''sku'') (field request ''quantity'') sent
          else if tool = Str ''/basket/checkout'' then checkout rt net this sent
          else if tool = Str ''/coupon/apply'' then
            applyCoupon rt net this (field request ''coupon'') sent
          else if tool = Str ''/coupon/remove'' then removeCoupon rt net this sent
          else unknown_tool rt tool sent)"

section \<open>Demo Client (src/demo/client.js)\<close>

record DemoClient =
  demo_baseUrl :: jsval
  demo_taskId :: jsval

definition demo_request ::
  "runtime \<Rightarrow> network \<Rightarrow> DemoClient \<Rightarrow> string \<Rightarrow> jsval \<Rightarrow> http_request list \<Rightarrow> outcome" where
  "demo_request rt net this endpoint data sent =
     (case and_then (js_ToString rt (demo_baseUrl this)) (\<lambda>b.
             and_then (js_ToString rt (demo_taskId this)) (\<lambda>t.
               Inr (b @ ''/demo/'' @ t @ endpoint))) of
        Inl e \<Rightarrow> throw e sent
      | Inr u \<Rightarrow> post_json rt net u data sent)"

definition getSecret ::
  "runtime \<Rightarrow> network \<Rightarrow> DemoClient \<Rightarrow> http_request list \<Rightarrow> outcome" where
  "getSecret rt net this =
     demo_request rt net this ''/secret'' (Obj [(''tool'', Str ''/secret'')])"

text \<open>\<open>submitAnswer(answer)\<close> sends \<open>String(answer)\<close>.\<close>

definition submitAnswer ::
  "runtime \<Rightarrow> network \<Rightarrow> DemoClient \<Rightarrow> jsval \<Rightarrow> http_request list \<Rightarrow> outcome" where
  "submitAnswer rt net this answer sent =
     (case js_ToString rt answer of
        Inl e \<Rightarrow> throw e sent
      | Inr s \<Rightarrow>
          demo_request rt net this ''/answer''
            (Obj [(''tool'', Str ''/answer''), (''answer'', Str s)]) sent)"

definition demo_dispatch ::
  "runtime \<Rightarrow> network \<Rightarrow> DemoClient \<Rightarrow> jsval \<Rightarrow> http_request list \<Rightarrow> outcome" where
  "demo_dispatch rt net this request sent =
     (case member rt request ''tool'' of
        Inl e \<Rightarrow> throw e sent
      | Inr tool \<Rightarrow>
          if tool = Str ''/secret'' then getSecret rt net this sent
          else if tool = Str ''/answer'' then
            submitAnswer rt net this (field request ''answer'') sent
          else unknown_tool rt tool sent)"

section \<open>The facade methods as calls\<close>


datatype store_call =
    ListProducts jsval
  | ViewBasket
  | AddToBasket jsval jsval
  | RemoveFromBasket jsval jsval
  | Checkout
  | ApplyCoupon jsval
  | RemoveCoupon
  | StoreDispatch jsval

datatype demo_call =
    GetSecret
  | SubmitAnswer jsval
  | DemoDispatch jsval


fun store_invoke ::
  "runtime \<Rightarrow> network \<Rightarrow> StoreClient \<Rightarrow> store_call \<Rightarrow> http_request list \<Rightarrow> outcome" where
  "store_invoke rt net c (ListProducts a) = listProducts rt net c a"
| "store_invoke rt net c ViewBasket = viewBasket rt net c"
| "store_invoke rt net c (AddToBasket s q) = addToBasket rt net c s q"
| "store_invoke rt net c (RemoveFromBasket s q) = removeFromBasket rt net c s q"
| "store_invoke rt net c Checkout = checkout rt net c"
| "store_invoke rt net c (ApplyCoupon cp) = applyCoupon rt net c cp"
| "store_invoke rt net c RemoveCoupon = removeCoupon rt net c"
| "store_invoke rt net c (StoreDispatch r) = store_dispatch rt net c r"

fun demo_invoke ::
  "runtime \<Rightarrow> network \<Rightarrow> DemoClient \<Rightarrow> demo_call \<Rightarrow> http_request list \<Rightarrow> outcome" where
  "demo_invoke rt net c GetSecret = getSecret rt net c"
| "demo_invoke rt net c (SubmitAnswer a) = submitAnswer rt net c a"
| "demo_invoke rt net c (DemoDispatch r) = demo_dispatch rt net c r"



section \<open>A runtime for the examples\<close>

text \<open>
  The theorems below hold for every runtime. To evaluate the model on concrete
  inputs, one runtime is fixed here: decimal numbers, JSON text without white space,
  arrays joined with commas, \<open>[object Object]\<close> for a plain object, and a TypeError
  for an object whose own \<open>toString\<close> property hides the inherited method.
\<close>

fun show_nat :: "nat \<Rightarrow> string" where
  "show_nat n =
     (if n < 10 then [char_of (48 + n)]
      else show_nat (n div 10) @ [char_of (48 + n mod 10)])"

declare show_nat.simps [simp del]

definition show_int :: "int \<Rightarrow> string" where
  "show_int i = (if i < 0 then CHR ''-'' # show_nat (nat (- i)) else show_nat (nat i))"

fun quoted :: "string \<Rightarrow> string" where
  "quoted [] = []"
| "quoted (c # cs) =
     (if c = CHR 0x22 \<or> c = CHR 0x5C then CHR 0x5C # c # quoted cs else c # quoted cs)"

fun stringify :: "jsval \<Rightarrow> string"
  and stringify_elems :: "jsval list \<Rightarrow> string"
  and stringify_props :: "(string \<times> jsval) list \<Rightarrow> string" where
  "stringify Undefined = ''undefined''"
| "stringify Null = ''null''"
| "stringify (Bool b) = (if b then ''true'' else ''false'')"
| "stringify (Num n) = show_int n"
| "stringify (Str s) = CHR 0x22 # quoted s @ [CHR 0x22]"
| "stringify (Arr xs) = ''['' @ stringify_elems xs @ '']''"
| "stringify (Obj ps) = ''{'' @ stringify_props ps @ ''}''"
| "stringify_elems [] = []"
| "stringify_elems (x # xs) =
     stringify x @ (if xs = [] then [] else '','' @ stringify_elems xs)"
| "stringify_props [] = []"
| "stringify_props (kv # ps) =
     CHR 0x22 # quoted (fst kv) @ [CHR 0x22] @ '':'' @ stringify (snd kv) @
     (if ps = [] then [] else '','' @ stringify_props ps)"

fun to_string :: "jsval \<Rightarrow> string + string"
  and join_elems :: "jsval list \<Rightarrow> string + string" where
  "to_string Undefined = Inr ''undefined''"
| "to_string Null = Inr ''null''"
| "to_string (Bool b) = Inr (if b then ''true'' else ''false'')"
| "to_string (Num n) = Inr (show_int n)"
| "to_string (Str s) = Inr s"
| "to_string (Arr xs) = join_elems xs"
| "to_string (Obj ps) =
     (if ''toString'' \<in> fst ` set ps then Inl ''Cannot convert object to primitive value''
      else Inr ''[object Object]'')"
| "join_elems [] = Inr []"
| "join_elems (x # xs) =
     (case (if x = Null \<or> x = Undefined then Inr [] else to_string x) of
        Inl m \<Rightarrow> Inl m
      | Inr s \<Rightarrow>
          (case join_elems xs of
             Inl m \<Rightarrow> Inl m
           | Inr r \<Rightarrow> Inr (s @ (if xs = [] then [] else '','' @ r))))"

definition is_digit :: "char \<Rightarrow> bool" where
  "is_digit c = (48 \<le> (of_char c :: nat) \<and> (of_char c :: nat) \<le> 57)"

definition parse_decimal :: "string \<Rightarrow> int option" where
  "parse_decimal s =
     (if s = [] then Some 0
      else if list_all is_digit s
      then Some (foldl (\<lambda>a c. 10 * a + (of_char c - 48)) 0 s)
      else None)"

definition to_number :: "jsval \<Rightarrow> string + int option" where
  "to_number v = (case to_string v of Inl m \<Rightarrow> Inl m | Inr s \<Rightarrow> Inr (parse_decimal s))"

definition sample_runtime :: runtime where
  "sample_runtime =
     \<lparr>JSON_stringify = stringify,
      number_text = show_int,
      ToString = to_string,
      ToNumber = to_number,
      cannot_read = (\<lambda>v p. ''Cannot read properties of '' @ stringify v),
      cannot_destructure = (\<lambda>v p. ''Cannot destructure '' @ stringify v),
      not_iterable = (\<lambda>v. ''not iterable''),
      not_a_function = (\<lambda>p. p @ '' is not a function'')\<rparr>"

section \<open>The pagination loop (examples/store.js, lines 45-65)\<close>

text \<open>
  What the first page prints for a product:
  \<open>`${p.name} (${p.sku}): $${p.price} (${p.available} available)`\<close>.
  Only the exceptions of the conversions matter here.
\<close>

definition print_product :: "runtime \<Rightarrow> jsval \<Rightarrow> js_error + unit" where
  "print_product rt p =
     and_then (member rt p ''name'') (\<lambda>name.
     and_then (js_ToString rt name) (\<lambda>_.
     and_then (js_ToString rt (field p ''sku'')) (\<lambda>_.
     and_then (js_ToString rt (field p ''price'')) (\<lambda>_.
     and_then (js_ToString rt (field p ''available'')) (\<lambda>_. Inr ())))))"

fun forEach :: "('a \<Rightarrow> js_error + unit) \<Rightarrow> 'a list \<Rightarrow> js_error + unit" where
  "forEach f [] = Inr ()"
| "forEach f (x # xs) = (case f x of Inl e \<Rightarrow> Inl e | Inr _ \<Rightarrow> forEach f xs)"

text \<open>
  Lines 51-60: the products that \<open>allProducts.push(...result.products)\<close> adds, or the
  TypeError of \<open>result.products.length\<close>, of spreading a value that is not iterable,
  or of printing the first three products of the first page. A string is spread
  into its characters.
\<close>

definition page_products :: "runtime \<Rightarrow> jsval \<Rightarrow> nat \<Rightarrow> js_error + jsval list" where
  "page_products rt result pageNum =
     (let products = field result ''products'' in
      if products = Null \<or> products = Undefined
      then Inl (TypeError (cannot_read rt products ''length''))
      else (case products of
              Arr ps \<Rightarrow>
                (if pageNum = 1
                 then (case forEach (print_product rt) (take 3 ps) of
                         Inl e \<Rightarrow> Inl e
                       | Inr _ \<Rightarrow> Inr ps)
                 else Inr ps)
            | Str s \<Rightarrow>
                (if pageNum = 1 then Inl (TypeError (not_a_function rt ''forEach''))
                 else Inr (map (\<lambda>c. Str [c]) s))
            | _ \<Rightarrow> Inl (TypeError (not_iterable rt products))))"

text \<open>
  The \<open>while (true)\<close> loop, with fuel: \<open>None\<close> when the fuel runs out before the
  loop is left. The source starts it with \<open>offset = 0\<close>, \<open>pageNum = 1\<close>, an empty
  \<open>allProducts\<close>, and asks for \<open>limit: 20\<close>; here the limit and the first offset are
  arguments.
\<close>

fun browse ::
  "nat \<Rightarrow> runtime \<Rightarrow> network \<Rightarrow> StoreClient \<Rightarrow> jsval \<Rightarrow> jsval list \<Rightarrow> jsval \<Rightarrow> nat \<Rightarrow>
   http_request list \<Rightarrow> ((js_error + jsval list) \<times> http_request list) option" where
  "browse 0 rt net store limit allProducts offset pageNum sent = None"
| "browse (Suc fuel) rt net store limit allProducts offset pageNum sent =
     (case listProducts rt net store (Obj [(''offset'', offset), (''limit'', limit)]) sent of
        (Inl e, sent') \<Rightarrow> Some (Inl e, sent')
      | (Inr result, sent') \<Rightarrow>
          (case page_products rt result pageNum of
             Inl e \<Rightarrow> Some (Inl e, sent')
           | Inr products \<Rightarrow>
               if field result ''next_offset'' = Num (- 1)
               then Some (Inr (allProducts @ products), sent')
               else browse fuel rt net store limit (allProducts @ products)
                      (field result ''next_offset'') (Suc pageNum) sent'))"

definition browse_all ::
  "nat \<Rightarrow> runtime \<Rightarrow> network \<Rightarrow> StoreClient \<Rightarrow> http_request list \<Rightarrow>
   ((js_error + jsval list) \<times> http_request list) option" where
  "browse_all fuel rt net store sent = browse fuel rt net store (Num 20) [] (Num 0) 1 sent"

text \<open>
  Modelled from the spec: the remote store server's product listing, which is not in
  the repository. Sections 3 and 4.4 of the specification and src/store/README.md
  give its contract: a finite, immutable catalog; the answer to \<open>{offset, limit}\<close> is
  \<open>{products, next_offset}\<close>, where \<open>next_offset\<close> is the offset of the next page, or
  \<open>-1\<close> when there are no more pages.
\<close>

definition catalog_page :: "jsval list \<Rightarrow> int \<Rightarrow> int \<Rightarrow> jsval" where
  "catalog_page catalog off lim =
     Obj [(''products'', Arr (take (nat lim) (drop (nat off) catalog))),
          (''next_offset'', Num (if off + lim < int (length catalog) then off + lim else - 1))]"

definition catalog_server :: "jsval list \<Rightarrow> network" where
  "catalog_server catalog sent rq =
     (case (field (body rq) ''offset'', field (body rq) ''limit'') of
        (Num off, Num lim) \<Rightarrow> Parsed (catalog_page catalog off lim)
      | _ \<Rightarrow> Parsed (Obj [(''status'', Num 400), (''error'', Str ''invalid request'')]))"


section \<open>The specification's tables\<close>

text \<open>
  Section 4.4 and 4.5 of the specification: the method that \<open>dispatch\<close> forwards a
  request to, with the fields taken from the request; \<open>None\<close> for a tool that is not
  recognized.
\<close>

definition spec_store_route :: "jsval \<Rightarrow> store_call option" where
  "spec_store_route request =
     (let tool = field request ''tool'' in
      if tool = Str ''/products/list''
      then Some (ListProducts (Obj [(''offset'', field request ''offset''),
                                    (''limit'', field request ''limit'')]))
      else if tool = Str ''/basket/view'' then Some ViewBasket
      else if tool = Str ''/basket/add''
      then Some (AddToBasket (field request ''sku'') (field request ''quantity''))
      else if tool = Str ''/basket/remove''
      then Some (RemoveFromBasket (field request ''sku'') (field request ''quantity''))
      else if tool = Str ''/basket/checkout'' then Some Checkout
      else if tool = Str ''/coupon/apply'' then Some (ApplyCoupon (field request ''coupon''))
      else if tool = Str ''/coupon/remove'' then Some RemoveCoupon
      else None)"

definition spec_demo_route :: "jsval \<Rightarrow> demo_call option" where
  "spec_demo_route request =
     (let tool = field request ''tool'' in
      if tool = Str ''/secret'' then Some GetSecret
      else if tool = Str ''/answer'' then Some (SubmitAnswer (field request ''answer''))
      else None)"

text \<open>
  Section 6 of the specification: the path suffix of each store operation, and its
  own parameters as they are sent (defaults applied).
\<close>

fun spec_store_path :: "store_call \<Rightarrow> string" where
  "spec_store_path (ListProducts a) = ''/products/list''"
| "spec_store_path ViewBasket = ''/basket/view''"
| "spec_store_path (AddToBasket s q) = ''/basket/add''"
| "spec_store_path (RemoveFromBasket s q) = ''/basket/remove''"
| "spec_store_path Checkout = ''/basket/checkout''"
| "spec_store_path (ApplyCoupon c) = ''/coupon/apply''"
| "spec_store_path RemoveCoupon = ''/coupon/remove''"
| "spec_store_path (StoreDispatch r) = []"

fun spec_store_params :: "store_call \<Rightarrow> (string \<times> jsval) list" where
  "spec_store_params (ListProducts a) =
     [(''offset'', param_default (field a ''offset'') (Num 0)),
      (''limit'', param_default (field a ''limit'') (Num 20))]"
| "spec_store_params (AddToBasket s q) = [(''sku'', s), (''quantity'', param_default q (Num 1))]"
| "spec_store_params (RemoveFromBasket s q) =
     [(''sku'', s), (''quantity'', param_default q (Num 1))]"
| "spec_store_params (ApplyCoupon c) = [(''coupon'', c)]"
| "spec_store_params x = []"

fun is_dispatch :: "store_call \<Rightarrow> bool" where
  "is_dispatch (StoreDispatch r) = True"
| "is_dispatch x = False"

section \<open>Sequences of calls\<close>



section \<open>Example clients\<close>

definition example_client :: ERC3 where
  "example_client = \<lparr>apiKey = Str ''key-1'', baseUrl = Str ''https://erc.timetoact-group.at''\<rparr>"

definition example_store :: StoreClient where
  "example_store = \<lparr>store_baseUrl = Str ''https://host'', store_taskId = Str ''t1''\<rparr>"

definition example_demo :: DemoClient where
  "example_demo = \<lparr>demo_baseUrl = Str ''https://host'', demo_taskId = Str ''t1''\<rparr>"

text \<open>The catalog of the sample response in src/store/README.md, with one more product.\<close>

definition example_catalog :: "jsval list" where
  "example_catalog =
     [Obj [(''sku'', Str ''gpu-h100''), (''name'', Str ''NVIDIA H100''),
           (''available'', Num 1), (''price'', Num 2000000)],
      Obj [(''sku'', Str ''gpu-a100''), (''name'', Str ''NVIDIA A100''),
           (''available'', Num 4), (''price'', Num 298750)],
      Obj [(''sku'', Str ''gpu-l40''), (''name'', Str ''NVIDIA L40''),
           (''available'', Num 2), (''price'', Num 90000)]]"

text \<open>The POST of a JSON body to a URL, as \<open>_request\<close> sends it.\<close>

definition posted :: "string \<Rightarrow> jsval \<Rightarrow> http_request" where
  "posted u b = \<lparr>url = u, http_method = ''POST'',
                headers = [(''Content-Type'', ''application/json'')], body = b\<rparr>"

text \<open>A network that gives every request the same answer.\<close>

definition always :: "fetched \<Rightarrow> network" where
  "always f sent rq = f"

section \<open>Properties of the Request Executor\<close>

lemma snd_post_json: "snd (post_json rt net u d sent) = sent @ [\<lparr>url = u, http_method = ''POST'',
                headers = [(''Content-Type'', ''application/json'')],
                body = json_of d\<rparr>]"
  by (simp add: post_json_def Let_def)






























section \<open>Properties of the Core Client\<close>

lemma core_request_Str:
  "baseUrl c = Str b \<Longrightarrow> core_request rt net c ep d sent = post_json rt net (b @ ep) d sent"
  by (simp add: core_request_def js_ToString_def)

lemma snd_core_request:
  "baseUrl c = Str b \<Longrightarrow> snd (core_request rt net c ep d sent) = sent @ [posted (b @ ep) (json_of d)]"
  by (simp add: core_request_Str snd_post_json posted_def)

text \<open>
  Claim C4. For every task identifier \<open>X\<close>, \<open>startTask\<close> and \<open>completeTask\<close> called
  with an object whose \<open>task_id\<close> is the string \<open>X\<close> do what they do when called with
  the bare string \<open>X\<close>; in both forms the request goes to \<open>/tasks/start\<close>
  (\<open>/tasks/complete\<close>) with the body \<open>{task_id: X}\<close>.
\<close>

theorem task_argument_forms:
  assumes "field task ''task_id'' = Str X"
  shows "startTask rt net c task sent = startTask rt net c (Str X) sent \<and>
         completeTask rt net c task sent = completeTask rt net c (Str X) sent \<and>
         (\<forall>b. baseUrl c = Str b \<longrightarrow>
            snd (startTask rt net c task sent) =
              sent @ [posted (b @ ''/tasks/start'') (Obj [(''task_id'', Str X)])] \<and>
            snd (startTask rt net c (Str X) sent) =
              sent @ [posted (b @ ''/tasks/start'') (Obj [(''task_id'', Str X)])] \<and>
            snd (completeTask rt net c task sent) =
              sent @ [posted (b @ ''/tasks/complete'') (Obj [(''task_id'', Str X)])] \<and>
            snd (completeTask rt net c (Str X) sent) =
              sent @ [posted (b @ ''/tasks/complete'') (Obj [(''task_id'', Str X)])])"
proof -
  have t: "task_id_of rt task = Inr (Str X)"
    using assms by (cases task) (auto simp: task_id_of_def member_def)
  have s: "task_id_of rt (Str X) = Inr (Str X)"
    by (simp add: task_id_of_def)
  show ?thesis
    by (simp add: startTask_def completeTask_def t s snd_core_request)
qed

theorem task_argument_forms_witness:
  "snd (startTask sample_runtime (always (Parsed (Obj []))) example_client
          (Obj [(''task_id'', Str ''t1'')]) []) =
     [posted ''https://erc.timetoact-group.at/tasks/start'' (Obj [(''task_id'', Str ''t1'')])] \<and>
   snd (startTask sample_runtime (always (Parsed (Obj []))) example_client (Str ''t1'') []) =
     [posted ''https://erc.timetoact-group.at/tasks/start'' (Obj [(''task_id'', Str ''t1'')])]"
proof -
  have f: "field (Obj [(''task_id'', Str ''t1'')]) ''task_id'' = Str ''t1''" by simp
  show ?thesis
    using task_argument_forms [OF f, of sample_runtime "always (Parsed (Obj []))" example_client "[]"]
    by (simp add: example_client_def)
qed

text \<open>
  Claim C9. \<open>viewTask(taskId, since)\<close> sends the body \<open>{task_id, since}\<close> when \<open>since\<close>
  is provided (neither \<open>null\<close> nor left out), and the body \<open>{task_id}\<close>, without a
  \<open>since\<close> field, otherwise.
\<close>

theorem viewTask_body:
  "viewTask rt net c taskId since sent =
     core_request rt net c ''/tasks/view''
       (Obj (if since = Null \<or> since = Undefined then [(''task_id'', taskId)]
             else [(''task_id'', taskId), (''since'', since)])) sent \<and>
   (\<forall>b. baseUrl c = Str b \<and> taskId \<noteq> Undefined \<longrightarrow>
      snd (viewTask rt net c taskId since sent) =
        sent @ [posted (b @ ''/tasks/view'')
                  (Obj (if since = Null \<or> since = Undefined then [(''task_id'', json_of taskId)]
                        else [(''task_id'', json_of taskId), (''since'', json_of since)]))])"
  by (simp add: viewTask_def Let_def param_default_def snd_core_request)

theorem viewTask_body_witness:
  "snd (viewTask sample_runtime (always (Parsed (Obj []))) example_client (Str ''t1'') (Num 17) []) =
     [posted ''https://erc.timetoact-group.at/tasks/view''
        (Obj [(''task_id'', Str ''t1''), (''since'', Num 17)])] \<and>
   snd (viewTask sample_runtime (always (Parsed (Obj []))) example_client (Str ''t1'') Undefined []) =
     [posted ''https://erc.timetoact-group.at/tasks/view'' (Obj [(''task_id'', Str ''t1'')])] \<and>
   snd (viewTask sample_runtime (always (Parsed (Obj []))) example_client (Str ''t1'') Null []) =
     [posted ''https://erc.timetoact-group.at/tasks/view'' (Obj [(''task_id'', Str ''t1'')])]"
  using viewTask_body [of sample_runtime "always (Parsed (Obj []))" example_client "Str ''t1''" "Num 17" "[]", THEN conjunct2]
    viewTask_body [of sample_runtime "always (Parsed (Obj []))" example_client "Str ''t1''" Undefined "[]", THEN conjunct2]
    viewTask_body [of sample_runtime "always (Parsed (Obj []))" example_client "Str ''t1''" Null "[]", THEN conjunct2]
  by (simp add: example_client_def)

lemma logLLM_data_Inr:
  assumes "arg \<noteq> Null" "arg \<noteq> Undefined" "field arg ''usage'' = usage"
    "usage \<noteq> Null" "usage \<noteq> Undefined"
  shows "logLLM_data rt arg =
    Inr (Obj [(''task_id'', field arg ''taskId''),
              (''model'', field arg ''model''),
              (''usage'',
                 Obj [(''prompt_tokens'',
                         js_or (js_or (field usage ''prompt_tokens'') (field usage ''input_tokens'')) (Num 0)),
                      (''completion_tokens'',
                         js_or (js_or (field usage ''completion_tokens'')
                                  (field usage ''output_tokens'')) (Num 0)),
                      (''total_tokens'', js_or (field usage ''total_tokens'') (Num 0))]),
              (''duration_sec'', field arg ''durationSec'')])"
  using assms by (simp add: logLLM_data_def member_def and_then_def Let_def)

text \<open>
  Claim C3, as amended. \<open>logLLM\<close> accepts a usage object under either naming. The
  usage it sends has \<open>prompt_tokens\<close> and \<open>completion_tokens\<close> from whichever naming is
  present, and \<open>total_tokens\<close> equal to the input's \<open>total_tokens\<close> when that is present
  and not zero, and \<open>0\<close> when it is absent: the total is not computed. The duration is
  sent under \<open>duration_sec\<close>, and the body has no \<open>durationSec\<close> field.
\<close>

theorem logLLM_normalizes_usage:
  assumes "arg \<noteq> Null" "arg \<noteq> Undefined" "field arg ''usage'' = usage"
    "usage \<noteq> Null" "usage \<noteq> Undefined"
  shows "\<exists>data. logLLM_data rt arg = Inr data \<and>
           logLLM rt net c arg sent = core_request rt net c ''/tasks/log'' data sent \<and>
           (truthy (field usage ''prompt_tokens'') \<longrightarrow>
              sent_usage data ''prompt_tokens'' = field usage ''prompt_tokens'') \<and>
           (field usage ''prompt_tokens'' = Undefined \<and> truthy (field usage ''input_tokens'') \<longrightarrow>
              sent_usage data ''prompt_tokens'' = field usage ''input_tokens'') \<and>
           (truthy (field usage ''completion_tokens'') \<longrightarrow>
              sent_usage data ''completion_tokens'' = field usage ''completion_tokens'') \<and>
           (field usage ''completion_tokens'' = Undefined \<and> truthy (field usage ''output_tokens'') \<longrightarrow>
              sent_usage data ''completion_tokens'' = field usage ''output_tokens'') \<and>
           (truthy (field usage ''total_tokens'') \<longrightarrow>
              sent_usage data ''total_tokens'' = field usage ''total_tokens'') \<and>
           (field usage ''total_tokens'' = Undefined \<longrightarrow>
              sent_usage data ''total_tokens'' = Num 0) \<and>
           field data ''duration_sec'' = field arg ''durationSec'' \<and>
           field data ''durationSec'' = Undefined"
  by (simp add: logLLM_data_Inr [OF assms] logLLM_def sent_usage_def js_or_def)

theorem logLLM_normalizes_usage_witness:
  "\<exists>data. logLLM_data sample_runtime
            (Obj [(''taskId'', Str ''t1''), (''model'', Str ''gpt-4''),
                  (''usage'', Obj [(''input_tokens'', Num 120), (''output_tokens'', Num 30),
                                   (''total_tokens'', Num 150)]),
                  (''durationSec'', Num 3)]) = Inr data \<and>
          sent_usage data ''prompt_tokens'' = Num 120 \<and>
          sent_usage data ''completion_tokens'' = Num 30 \<and>
          sent_usage data ''total_tokens'' = Num 150 \<and>
          field data ''duration_sec'' = Num 3"
  using logLLM_normalizes_usage
    [of "Obj [(''taskId'', Str ''t1''), (''model'', Str ''gpt-4''),
              (''usage'', Obj [(''input_tokens'', Num 120), (''output_tokens'', Num 30),
                               (''total_tokens'', Num 150)]),
              (''durationSec'', Num 3)]"
        "Obj [(''input_tokens'', Num 120), (''output_tokens'', Num 30),
              (''total_tokens'', Num 150)]"
        sample_runtime "always (Parsed (Obj []))" example_client "[]"]
  by auto

text \<open>
  Claim C3 as stated fails: for a usage \<open>{prompt_tokens: 100, completion_tokens: 50}\<close>
  without a total, the total that is sent is \<open>0\<close>, not \<open>150\<close>.
\<close>

theorem logLLM_normalizes_usage_counterexample:
  "logLLM_data sample_runtime
     (Obj [(''taskId'', Str ''t1''), (''model'', Str ''gpt-4''),
           (''usage'', Obj [(''prompt_tokens'', Num 100), (''completion_tokens'', Num 50)]),
           (''durationSec'', Num 2)]) =
   Inr (Obj [(''task_id'', Str ''t1''), (''model'', Str ''gpt-4''),
             (''usage'', Obj [(''prompt_tokens'', Num 100), (''completion_tokens'', Num 50),
                              (''total_tokens'', Num 0)]),
             (''duration_sec'', Num 2)])"
  by (simp add: logLLM_data_def member_def and_then_def Let_def js_or_def)

text \<open>
  Claim C10. In the usage that \<open>logLLM\<close> sends, a count of \<open>0\<close> is treated as an
  absent one: when \<open>prompt_tokens\<close> is \<open>0\<close> or missing and \<open>input_tokens\<close> is a number
  other than zero, \<open>input_tokens\<close> is sent as \<open>prompt_tokens\<close>; likewise
  \<open>completion_tokens\<close> falls back to \<open>output_tokens\<close>; a \<open>total_tokens\<close> that is \<open>0\<close> or
  missing is sent as \<open>0\<close>.
\<close>

theorem logLLM_zero_counts:
  assumes "arg \<noteq> Null" "arg \<noteq> Undefined" "field arg ''usage'' = usage"
    "usage \<noteq> Null" "usage \<noteq> Undefined"
  shows "\<exists>data. logLLM_data rt arg = Inr data \<and>
           (\<forall>n. (field usage ''prompt_tokens'' = Num 0 \<or> field usage ''prompt_tokens'' = Undefined) \<and>
                field usage ''input_tokens'' = Num n \<and> n \<noteq> 0 \<longrightarrow>
                sent_usage data ''prompt_tokens'' = Num n) \<and>
           (\<forall>n. (field usage ''completion_tokens'' = Num 0 \<or>
                 field usage ''completion_tokens'' = Undefined) \<and>
                field usage ''output_tokens'' = Num n \<and> n \<noteq> 0 \<longrightarrow>
                sent_usage data ''completion_tokens'' = Num n) \<and>
           (field usage ''total_tokens'' = Num 0 \<or> field usage ''total_tokens'' = Undefined \<longrightarrow>
              sent_usage data ''total_tokens'' = Num 0)"
  by (auto simp: logLLM_data_Inr [OF assms] sent_usage_def js_or_def)


theorem logLLM_zero_counts_witness:
  "\<exists>data. logLLM_data sample_runtime
            (Obj [(''taskId'', Str ''t1''), (''model'', Str ''gpt-4''),
                  (''usage'', Obj [(''prompt_tokens'', Num 0), (''input_tokens'', Num 120),
                                   (''output_tokens'', Num 30), (''total_tokens'', Num 0)]),
                  (''durationSec'', Num 3)]) = Inr data \<and>
          sent_usage data ''prompt_tokens'' = Num 120 \<and>
          sent_usage data ''completion_tokens'' = Num 30 \<and>
          sent_usage data ''total_tokens'' = Num 0"
  using logLLM_zero_counts
    [of "Obj [(''taskId'', Str ''t1''), (''model'', Str ''gpt-4''),
              (''usage'', Obj [(''prompt_tokens'', Num 0), (''input_tokens'', Num 120),
                               (''output_tokens'', Num 30), (''total_tokens'', Num 0)]),
              (''durationSec'', Num 3)]"
        "Obj [(''prompt_tokens'', Num 0), (''input_tokens'', Num 120),
              (''output_tokens'', Num 30), (''total_tokens'', Num 0)]"
        sample_runtime]
  by auto






section \<open>Properties of the Store Client and the Demo Client\<close>

lemma not_ApiException_throw_unknown:
  "\<exists>e. unknown_tool rt tool sent = (Inl e, sent) \<and> \<not> is_ApiException e"
  by (cases tool)
     (auto simp: unknown_tool_def throw_def js_ToString_def split: sum.splits)

lemma store_dispatch_route:
  "spec_store_route request = Some call \<Longrightarrow>
   store_dispatch rt net c request sent = store_invoke rt net c call sent"
  by (cases request)
     (auto simp: spec_store_route_def store_dispatch_def member_def Let_def split: if_splits)

lemma store_dispatch_unknown:
  "spec_store_route request = None \<Longrightarrow>
   \<exists>e. store_dispatch rt net c request sent = (Inl e, sent) \<and> \<not> is_ApiException e"
  using not_ApiException_throw_unknown [of rt "field request ''tool''" sent]
  by (auto simp: spec_store_route_def store_dispatch_def member_def Let_def throw_def
      split: if_splits)

lemma demo_dispatch_route:
  "spec_demo_route request = Some call \<Longrightarrow>
   demo_dispatch rt net c request sent = demo_invoke rt net c call sent"
  by (cases request)
     (auto simp: spec_demo_route_def demo_dispatch_def member_def Let_def split: if_splits)

lemma demo_dispatch_unknown:
  "spec_demo_route request = None \<Longrightarrow>
   \<exists>e. demo_dispatch rt net c request sent = (Inl e, sent) \<and> \<not> is_ApiException e"
  using not_ApiException_throw_unknown [of rt "field request ''tool''" sent]
  by (auto simp: spec_demo_route_def demo_dispatch_def member_def Let_def throw_def
      split: if_splits)

text \<open>
  Claim C5. For a request whose \<open>tool\<close> is recognized, \<open>dispatch\<close> of the Store
  Client (seven tools) and of the Demo Client (\<open>/secret\<close>, \<open>/answer\<close>) does what the
  method of the specification's routing table does when it is called directly with
  the fields of the request; an absent field reaches the method as \<open>undefined\<close>, so
  the method's default applies. For any other \<open>tool\<close>, \<open>dispatch\<close> raises an error that
  is not an ApiException and sends no request.
\<close>

theorem dispatch_routes:
  "(\<forall>call. spec_store_route request = Some call \<longrightarrow>
      store_dispatch rt net store request sent = store_invoke rt net store call sent) \<and>
   (spec_store_route request = None \<longrightarrow>
      (\<exists>e. store_dispatch rt net store request sent = (Inl e, sent) \<and> \<not> is_ApiException e)) \<and>
   (\<forall>call. spec_demo_route request = Some call \<longrightarrow>
      demo_dispatch rt net demo request sent = demo_invoke rt net demo call sent) \<and>
   (spec_demo_route request = None \<longrightarrow>
      (\<exists>e. demo_dispatch rt net demo request sent = (Inl e, sent) \<and> \<not> is_ApiException e))"
  by (simp add: store_dispatch_route store_dispatch_unknown demo_dispatch_route
      demo_dispatch_unknown)


theorem dispatch_routes_witness:
  "store_dispatch sample_runtime (always (Parsed (Obj []))) example_store
     (Obj [(''tool'', Str ''/basket/add''), (''sku'', Str ''gpu-h100'')]) [] =
   store_invoke sample_runtime (always (Parsed (Obj []))) example_store
     (AddToBasket (Str ''gpu-h100'') Undefined) [] \<and>
   (\<exists>e. store_dispatch sample_runtime (always (Parsed (Obj []))) example_store
          (Obj [(''tool'', Str ''/basket/clear'')]) [] = (Inl e, []) \<and> \<not> is_ApiException e) \<and>
   demo_dispatch sample_runtime (always (Parsed (Obj []))) example_demo
     (Obj [(''tool'', Str ''/answer''), (''answer'', Str ''abc'')]) [] =
   demo_invoke sample_runtime (always (Parsed (Obj []))) example_demo
     (SubmitAnswer (Str ''abc'')) [] \<and>
   (\<exists>e. demo_dispatch sample_runtime (always (Parsed (Obj []))) example_demo
          (Obj [(''tool'', Str ''/basket/add'')]) [] = (Inl e, []) \<and> \<not> is_ApiException e)"
proof -
  have 1: "spec_store_route (Obj [(''tool'', Str ''/basket/add''), (''sku'', Str ''gpu-h100'')]) =
      Some (AddToBasket (Str ''gpu-h100'') Undefined)"
    by (simp add: spec_store_route_def)
  have 2: "spec_store_route (Obj [(''tool'', Str ''/basket/clear'')]) = None"
    by (simp add: spec_store_route_def)
  have 3: "spec_demo_route (Obj [(''tool'', Str ''/answer''), (''answer'', Str ''abc'')]) =
      Some (SubmitAnswer (Str ''abc''))"
    by (simp add: spec_demo_route_def)
  have 4: "spec_demo_route (Obj [(''tool'', Str ''/basket/add'')]) = None"
    by (simp add: spec_demo_route_def)
  show ?thesis
    using dispatch_routes [of "Obj [(''tool'', Str ''/basket/add''), (''sku'', Str ''gpu-h100'')]"
        sample_runtime "always (Parsed (Obj []))" example_store "[]" example_demo]
      dispatch_routes [of "Obj [(''tool'', Str ''/basket/clear'')]"
        sample_runtime "always (Parsed (Obj []))" example_store "[]" example_demo]
      dispatch_routes [of "Obj [(''tool'', Str ''/answer''), (''answer'', Str ''abc'')]"
        sample_runtime "always (Parsed (Obj []))" example_store "[]" example_demo]
      dispatch_routes [of "Obj [(''tool'', Str ''/basket/add'')]"
        sample_runtime "always (Parsed (Obj []))" example_store "[]" example_demo]
    unfolding 1 2 3 4 by simp
qed

lemma store_request_Str:
  "store_baseUrl c = Str b \<Longrightarrow> store_taskId c = Str t \<Longrightarrow>
   store_request rt net c ep d sent = post_json rt net (b @ ''/store/'' @ t @ ep) d sent"
  by (simp add: store_request_def js_ToString_def and_then_def)

text \<open>
  Claim C6. Every operation of a Store Client sends one POST to the URL made of the
  base URL, \<open>/store/\<close>, the task ID and the path suffix of the operation; the body has
  a \<open>tool\<close> field equal to that suffix, followed by the operation's own parameters.
  (\<open>listProducts(null)\<close> throws before it sends anything.)
\<close>

theorem store_operation_request:
  assumes "store_baseUrl c = Str b" and "store_taskId c = Str t"
    and "\<not> is_dispatch call" and "call \<noteq> ListProducts Null"
  shows "snd (store_invoke rt net c call sent) =
           sent @ [posted (b @ ''/store/'' @ t @ spec_store_path call)
                     (Obj (json_props ((''tool'', Str (spec_store_path call)) #
                                        spec_store_params call)))] \<and>
         field (body (last (snd (store_invoke rt net c call sent)))) ''tool'' =
           Str (spec_store_path call)"
  using assms
  by (cases call)
     (auto simp: listProducts_def viewBasket_def addToBasket_def removeFromBasket_def
        checkout_def applyCoupon_def removeCoupon_def store_request_Str snd_post_json
        posted_def Let_def param_default_def)


theorem store_operation_request_witness:
  "snd (store_invoke sample_runtime (always (Parsed (Obj []))) example_store
          (AddToBasket (Str ''gpu-h100'') Undefined) []) =
     [posted ''https://host/store/t1/basket/add''
        (Obj [(''tool'', Str ''/basket/add''), (''sku'', Str ''gpu-h100''), (''quantity'', Num 1)])] \<and>
   snd (store_invoke sample_runtime (always (Parsed (Obj []))) example_store
          (ListProducts Undefined) []) =
     [posted ''https://host/store/t1/products/list''
        (Obj [(''tool'', Str ''/products/list''), (''offset'', Num 0), (''limit'', Num 20)])]"
proof -
  have b: "store_baseUrl example_store = Str ''https://host''"
    and t: "store_taskId example_store = Str ''t1''"
    by (simp_all add: example_store_def)
  have 1: "\<not> is_dispatch (AddToBasket (Str ''gpu-h100'') Undefined)"
    and 2: "AddToBasket (Str ''gpu-h100'') Undefined \<noteq> ListProducts Null"
    and 3: "\<not> is_dispatch (ListProducts Undefined)"
    and 4: "ListProducts Undefined \<noteq> ListProducts Null"
    by simp_all
  show ?thesis
    using store_operation_request [OF b t 1 2, of sample_runtime "always (Parsed (Obj []))" "[]"]
      store_operation_request [OF b t 3 4, of sample_runtime "always (Parsed (Obj []))" "[]"]
    by (simp add: param_default_def)
qed

section \<open>Properties of the pagination loop\<close>

lemma check_response_catalog_page:
  "check_response rt (Parsed (catalog_page cat off lim)) = Inr (catalog_page cat off lim)"
  by (simp add: check_response_def member_def catalog_page_def)

lemma listProducts_catalog:
  "(\<exists>e. listProducts rt (catalog_server cat) store
           (Obj [(''offset'', Num off), (''limit'', Num lim)]) sent = (Inl e, sent)) \<or>
   (\<exists>sent'. listProducts rt (catalog_server cat) store
           (Obj [(''offset'', Num off), (''limit'', Num lim)]) sent =
          (Inr (catalog_page cat off lim), sent'))"
  by (simp add: listProducts_def param_default_def Let_def store_request_def throw_def
      post_json_def catalog_server_def check_response_catalog_page split: sum.split)

lemma listProducts_catalog_Str:
  assumes "store_baseUrl store = Str b" "store_taskId store = Str t"
  shows "\<exists>sent'. listProducts rt (catalog_server cat) store
           (Obj [(''offset'', Num off), (''limit'', Num lim)]) sent =
          (Inr (catalog_page cat off lim), sent')"
  using assms
  by (simp add: listProducts_def param_default_def Let_def store_request_Str
      post_json_def catalog_server_def check_response_catalog_page)

lemma browse_catalog_terminates:
  "0 \<le> off \<Longrightarrow> 1 \<le> lim \<Longrightarrow> length cat - nat off < fuel \<Longrightarrow>
   \<exists>r sent'. browse fuel rt (catalog_server cat) store (Num lim) acc (Num off) pn sent =
     Some (r, sent')"
proof (induction fuel arbitrary: off acc pn sent)
  case 0
  then show ?case by simp
next
  case (Suc k)
  from listProducts_catalog [of rt cat store off lim sent]
  show ?case
  proof (elim disjE exE)
    fix e
    assume "listProducts rt (catalog_server cat) store
        (Obj [(''offset'', Num off), (''limit'', Num lim)]) sent = (Inl e, sent)"
    then show ?thesis by simp
  next
    fix sent'
    assume lp: "listProducts rt (catalog_server cat) store
        (Obj [(''offset'', Num off), (''limit'', Num lim)]) sent =
        (Inr (catalog_page cat off lim), sent')"
    show ?thesis
    proof (cases "page_products rt (catalog_page cat off lim) pn")
      case (Inl e)
      with lp show ?thesis by simp
    next
      case (Inr ps)
      show ?thesis
      proof (cases "off + lim < int (length cat)")
        case True
        have n: "field (catalog_page cat off lim) ''next_offset'' = Num (off + lim)"
          using True by (simp add: catalog_page_def)
        have ne: "off + lim \<noteq> - 1" using Suc.prems by arith
        have m: "length cat - nat (off + lim) < k" using Suc.prems True by arith
        have o: "0 \<le> off + lim" using Suc.prems by arith
        from Suc.IH [OF o Suc.prems(2) m, of "acc @ ps" "Suc pn" sent']
        show ?thesis using lp Inr n ne by simp
      next
        case False
        have n: "field (catalog_page cat off lim) ''next_offset'' = Num (- 1)"
          using False by (simp add: catalog_page_def)
        show ?thesis using lp Inr n by simp
      qed
    qed
  qed
qed

lemma forEach_all: "\<forall>x \<in> set xs. f x = Inr () \<Longrightarrow> forEach f xs = Inr ()"
  by (induction xs) simp_all

lemma page_products_catalog:
  assumes "\<forall>p \<in> set cat. print_product rt p = Inr ()"
  shows "page_products rt (catalog_page cat off lim) pn = Inr (take (nat lim) (drop (nat off) cat))"
proof -
  have "\<forall>p \<in> set (take 3 (take (nat lim) (drop (nat off) cat))). print_product rt p = Inr ()"
    using assms by (meson in_set_takeD in_set_dropD)
  then have "forEach (print_product rt) (take 3 (take (nat lim) (drop (nat off) cat))) = Inr ()"
    by (rule forEach_all)
  then show ?thesis
    by (simp add: page_products_def catalog_page_def)
qed

lemma browse_catalog_collects:
  assumes "store_baseUrl store = Str b" "store_taskId store = Str t"
    and "\<forall>p \<in> set cat. print_product rt p = Inr ()"
  shows "0 \<le> off \<Longrightarrow> 1 \<le> lim \<Longrightarrow> length cat - nat off < fuel \<Longrightarrow>
   \<exists>sent'. browse fuel rt (catalog_server cat) store (Num lim) acc (Num off) pn sent =
     Some (Inr (acc @ drop (nat off) cat), sent')"
proof (induction fuel arbitrary: off acc pn sent)
  case 0
  then show ?case by simp
next
  case (Suc k)
  from listProducts_catalog_Str [OF assms(1,2), of rt cat off lim sent]
  obtain sent' where lp: "listProducts rt (catalog_server cat) store
        (Obj [(''offset'', Num off), (''limit'', Num lim)]) sent =
        (Inr (catalog_page cat off lim), sent')" by blast
  note pp = page_products_catalog [OF assms(3), of off lim pn]
  show ?case
  proof (cases "off + lim < int (length cat)")
    case True
    have n: "field (catalog_page cat off lim) ''next_offset'' = Num (off + lim)"
      using True by (simp add: catalog_page_def)
    have ne: "off + lim \<noteq> - 1" using Suc.prems by arith
    have m: "length cat - nat (off + lim) < k" using Suc.prems True by arith
    have o: "0 \<le> off + lim" using Suc.prems by arith
    have d: "nat (off + lim) = nat lim + nat off" using Suc.prems by arith
    have e: "take (nat lim) (drop (nat off) cat) @ drop (nat (off + lim)) cat = drop (nat off) cat"
      unfolding d by (metis append_take_drop_id drop_drop)
    from Suc.IH [OF o Suc.prems(2) m, of "acc @ take (nat lim) (drop (nat off) cat)" "Suc pn" sent']
    show ?thesis using lp pp n ne e by simp
  next
    case False
    have n: "field (catalog_page cat off lim) ''next_offset'' = Num (- 1)"
      using False by (simp add: catalog_page_def)
    have "length (drop (nat off) cat) \<le> nat lim" using False Suc.prems by simp
    then have e: "take (nat lim) (drop (nat off) cat) = drop (nat off) cat" by simp
    show ?thesis using lp pp n e by simp
  qed
qed


text \<open>
  Claim C7. Against a server that pages a finite catalog, the loop that calls
  \<open>listProducts\<close> with a valid offset and limit (\<open>0 \<le> offset\<close>, \<open>1 \<le> limit\<close>) and then
  again with each returned \<open>next_offset\<close> ends after at most one call more than the
  catalog has products; when the client's URL parts are strings and the products
  print, it ends with all products from the first offset on. For any network at
  all: after a page has been received, the loop ends there exactly when the page's
  \<open>next_offset\<close> is \<open>-1\<close>, and otherwise goes on with \<open>next_offset\<close>, whatever it is,
  as the offset; \<open>listProducts\<close> sends the offset it is given as it is.
\<close>

theorem pagination:
  "(\<forall>off lim. 0 \<le> off \<and> 1 \<le> lim \<longrightarrow>
      (\<exists>r sent'. browse (Suc (length catalog)) rt (catalog_server catalog) store (Num lim)
                   acc (Num off) pageNum sent = Some (r, sent')) \<and>
      ((\<exists>b t. store_baseUrl store = Str b \<and> store_taskId store = Str t) \<and>
       (\<forall>p \<in> set catalog. print_product rt p = Inr ()) \<longrightarrow>
         (\<exists>sent'. browse (Suc (length catalog)) rt (catalog_server catalog) store (Num lim)
                    acc (Num off) pageNum sent =
                  Some (Inr (acc @ drop (nat off) catalog), sent')))) \<and>
   (\<forall>result sent' products.
      listProducts rt net store (Obj [(''offset'', offset), (''limit'', limit)]) sent =
        (Inr result, sent') \<and>
      page_products rt result pageNum = Inr products \<longrightarrow>
      (field result ''next_offset'' = Num (- 1) \<longrightarrow>
         browse (Suc fuel) rt net store limit acc offset pageNum sent =
           Some (Inr (acc @ products), sent')) \<and>
      (field result ''next_offset'' \<noteq> Num (- 1) \<longrightarrow>
         browse (Suc fuel) rt net store limit acc offset pageNum sent =
           browse fuel rt net store limit (acc @ products) (field result ''next_offset'')
             (Suc pageNum) sent')) \<and>
   (\<forall>b t. store_baseUrl store = Str b \<and> store_taskId store = Str t \<and> offset \<noteq> Undefined \<longrightarrow>
      snd (listProducts rt net store (Obj [(''offset'', offset), (''limit'', limit)]) sent) =
        sent @ [posted (b @ ''/store/'' @ t @ ''/products/list'')
                  (Obj [(''tool'', Str ''/products/list''), (''offset'', json_of offset),
                        (''limit'', json_of (param_default limit (Num 20)))])])"
proof (intro conjI allI impI)
  fix off lim :: int
  assume "0 \<le> off \<and> 1 \<le> lim"
  then show "\<exists>r sent'. browse (Suc (length catalog)) rt (catalog_server catalog) store (Num lim)
                   acc (Num off) pageNum sent = Some (r, sent')"
    by (intro browse_catalog_terminates) simp_all
next
  fix off lim :: int
  assume v: "0 \<le> off \<and> 1 \<le> lim"
    and h: "(\<exists>b t. store_baseUrl store = Str b \<and> store_taskId store = Str t) \<and>
       (\<forall>p \<in> set catalog. print_product rt p = Inr ())"
  then obtain b t where "store_baseUrl store = Str b" "store_taskId store = Str t" by blast
  from browse_catalog_collects [OF this, of catalog rt off lim "Suc (length catalog)"] v h
  show "\<exists>sent'. browse (Suc (length catalog)) rt (catalog_server catalog) store (Num lim)
                    acc (Num off) pageNum sent =
                  Some (Inr (acc @ drop (nat off) catalog), sent')"
    by simp
next
  fix result sent' products
  assume "listProducts rt net store (Obj [(''offset'', offset), (''limit'', limit)]) sent =
        (Inr result, sent') \<and>
      page_products rt result pageNum = Inr products"
    and "field result ''next_offset'' = Num (- 1)"
  then show "browse (Suc fuel) rt net store limit acc offset pageNum sent =
           Some (Inr (acc @ products), sent')"
    by simp
next
  fix result sent' products
  assume "listProducts rt net store (Obj [(''offset'', offset), (''limit'', limit)]) sent =
        (Inr result, sent') \<and>
      page_products rt result pageNum = Inr products"
    and "field result ''next_offset'' \<noteq> Num (- 1)"
  then show "browse (Suc fuel) rt net store limit acc offset pageNum sent =
           browse fuel rt net store limit (acc @ products) (field result ''next_offset'')
             (Suc pageNum) sent'"
    by simp
next
  fix b t
  assume "store_baseUrl store = Str b \<and> store_taskId store = Str t \<and> offset \<noteq> Undefined"
  then show "snd (listProducts rt net store (Obj [(''offset'', offset), (''limit'', limit)]) sent) =
        sent @ [posted (b @ ''/store/'' @ t @ ''/products/list'')
                  (Obj [(''tool'', Str ''/products/list''), (''offset'', json_of offset),
                        (''limit'', json_of (param_default limit (Num 20)))])]"
    by (simp add: listProducts_def Let_def param_default_def store_request_Str snd_post_json
        posted_def)
qed

theorem pagination_witness:
  "(\<exists>sent'. browse 4 sample_runtime (catalog_server example_catalog) example_store (Num 2)
             [] (Num 0) 1 [] = Some (Inr example_catalog, sent')) \<and>
   snd (listProducts sample_runtime (catalog_server example_catalog) example_store
          (Obj [(''offset'', Num 2), (''limit'', Num 2)]) []) =
     [posted ''https://host/store/t1/products/list''
        (Obj [(''tool'', Str ''/products/list''), (''offset'', Num 2), (''limit'', Num 2)])]"
proof -
  have p: "\<forall>p \<in> set example_catalog. print_product sample_runtime p = Inr ()"
    by (simp add: example_catalog_def print_product_def member_def js_ToString_def
        and_then_def sample_runtime_def)
  have u: "\<exists>b t. store_baseUrl example_store = Str b \<and> store_taskId example_store = Str t"
    by (simp add: example_store_def)
  have l: "Suc (length example_catalog) = 4"
    by (simp add: example_catalog_def)
  note t = pagination [of example_catalog sample_runtime example_store "[]" 1 "[]"
      "catalog_server example_catalog" "Num 2" "Num 2"]
  from t p u have "\<exists>sent'. browse (Suc (length example_catalog)) sample_runtime
      (catalog_server example_catalog) example_store (Num 2)
             [] (Num 0) 1 [] = Some (Inr ([] @ drop (nat 0) example_catalog), sent')"
    by (metis (no_types, lifting) order_refl one_le_numeral)
  then have 1: "\<exists>sent'. browse 4 sample_runtime (catalog_server example_catalog) example_store
      (Num 2) [] (Num 0) 1 [] = Some (Inr example_catalog, sent')"
    unfolding l by simp
  have 2: "snd (listProducts sample_runtime (catalog_server example_catalog) example_store
          (Obj [(''offset'', Num 2), (''limit'', Num 2)]) []) =
     [posted ''https://host/store/t1/products/list''
        (Obj [(''tool'', Str ''/products/list''), (''offset'', Num 2), (''limit'', Num 2)])]"
    using t by (simp add: example_store_def param_default_def)
  show ?thesis using 1 2 by blast
qed

end
